theory Spec2Isabelle
  imports Main
begin

section \<open>The subscription table\<close>

text \<open>
  The table \<^verbatim>\<open>RazorpaySubscription\<close> of the migration: the columns the route handlers
  read and write. \<^verbatim>\<open>userId\<close>, \<^verbatim>\<open>razorpaySubscriptionId\<close>, \<^verbatim>\<open>razorpayPlanId\<close>,
  \<^verbatim>\<open>razorpayCustomerId\<close> and \<^verbatim>\<open>status\<close> are nullable text columns;
  \<^verbatim>\<open>currentPeriodEnd\<close> is a timestamp, kept as milliseconds since the epoch (the
  argument of \<^verbatim>\<open>new Date(...)\<close>). The columns \<^verbatim>\<open>id\<close>, \<^verbatim>\<open>createdAt\<close> and
  \<^verbatim>\<open>updatedAt\<close> are filled in by the persistence layer, never by a handler, and
  are left out.
\<close>

record RazorpaySubscription =
  userId :: "string option"
  razorpaySubscriptionId :: "string option"
  razorpayPlanId :: "string option"
  razorpayCustomerId :: "string option"
  currentPeriodEnd :: int
  status :: "string option"

type_synonym subscription_table = "RazorpaySubscription list"

text \<open>
  What a store operation can throw: the client refuses an invalid \<^verbatim>\<open>Date\<close> before
  it sends anything, the store itself is unavailable, the row named by a unique
  \<^verbatim>\<open>where\<close> is missing, the timestamp is outside what the column takes, or a unique
  index would be violated.
\<close>

datatype db_error =
  InvalidDate | StoreUnavailable | RecordNotFound | TimestampRefused | UniqueConstraint

text \<open>
  \<^verbatim>\<open>new Date(ms)\<close> is a valid date only for a time value of at most 8.64e15 ms on
  either side of the epoch; beyond that it is \<^verbatim>\<open>Invalid Date\<close>.
\<close>

definition valid_Date :: "int \<Rightarrow> bool" where
  "valid_Date ms \<longleftrightarrow> - 8640000000000000 \<le> ms \<and> ms \<le> 8640000000000000"

text \<open>
  What the store does is not decided by the table's contents alone. Every handler
  issues at most one read followed by at most one write, so two flags describe
  whether the store can be reached during one request. The third field says which
  timestamps the store refuses for the column \<^verbatim>\<open>currentPeriodEnd\<close>, a
  \<^verbatim>\<open>TIMESTAMP(3)\<close>: its bounds, and those of the client that sends the value, are
  not in the source.
\<close>

record faults =
  read_fails :: bool
  write_fails :: bool
  refuses_timestamp :: "int \<Rightarrow> bool"

text \<open>A store that answers and takes the timestamps of the years 1970 to 9999.\<close>

definition no_faults :: faults where
  "no_faults =
     \<lparr>read_fails = False, write_fails = False,
      refuses_timestamp = (\<lambda>ms. ms < 0 \<or> 253402300799999 < ms)\<rparr>"

text \<open>
  The two unique indexes of the migration,
  \<^verbatim>\<open>RazorpaySubscription_userId_key\<close> and
  \<^verbatim>\<open>RazorpaySubscription_razorpaySubscriptionId_key\<close>: a row clashes with another
  when they agree on a non-null value of an indexed column.
\<close>

definition clashes :: "RazorpaySubscription \<Rightarrow> RazorpaySubscription \<Rightarrow> bool" where
  "clashes x r \<longleftrightarrow>
     (userId x \<noteq> None \<and> userId x = userId r) \<or>
     (razorpaySubscriptionId x \<noteq> None \<and> razorpaySubscriptionId x = razorpaySubscriptionId r)"

fun lookup_row :: "string \<Rightarrow> subscription_table \<Rightarrow> RazorpaySubscription option" where
  "lookup_row sid [] = None"
| "lookup_row sid (r # rs) =
     (if razorpaySubscriptionId r = Some sid then Some r else lookup_row sid rs)"

text \<open>The rows other than the one \<open>lookup_row\<close> finds.\<close>

fun other_rows :: "string \<Rightarrow> subscription_table \<Rightarrow> subscription_table" where
  "other_rows sid [] = []"
| "other_rows sid (r # rs) =
     (if razorpaySubscriptionId r = Some sid then rs else r # other_rows sid rs)"

text \<open>
  The \<^verbatim>\<open>data\<close> object of an update: the columns it sets. The handlers set only
  \<^verbatim>\<open>status\<close>, \<^verbatim>\<open>currentPeriodEnd\<close> and \<^verbatim>\<open>userId\<close>.
\<close>

record update_data =
  set_status :: "string option"
  set_currentPeriodEnd :: "int option"
  set_userId :: "string option"

definition apply_data :: "update_data \<Rightarrow> RazorpaySubscription \<Rightarrow> RazorpaySubscription" where
  "apply_data d r =
     r\<lparr>status := (case set_status d of None \<Rightarrow> status r | Some v \<Rightarrow> Some v),
       currentPeriodEnd := (case set_currentPeriodEnd d of None \<Rightarrow> currentPeriodEnd r | Some v \<Rightarrow> v),
       userId := (case set_userId d of None \<Rightarrow> userId r | Some v \<Rightarrow> Some v)\<rparr>"

fun patch_row :: "string \<Rightarrow> update_data \<Rightarrow> subscription_table \<Rightarrow> subscription_table" where
  "patch_row sid d [] = []"
| "patch_row sid d (r # rs) =
     (if razorpaySubscriptionId r = Some sid then apply_data d r # rs
      else r # patch_row sid d rs)"

text \<open>
  An update leaves \<^verbatim>\<open>razorpaySubscriptionId\<close> alone, so the only index it can violate
  is the one on \<^verbatim>\<open>userId\<close>: when it sets a \<^verbatim>\<open>userId\<close> that another row holds.
\<close>

definition owned_elsewhere :: "update_data \<Rightarrow> string \<Rightarrow> subscription_table \<Rightarrow> bool" where
  "owned_elsewhere d sid tbl =
     (case set_userId d of
        None \<Rightarrow> False
      | Some u \<Rightarrow> list_ex (\<lambda>x. userId x = Some u) (other_rows sid tbl))"

text \<open>\<^verbatim>\<open>db.razorpaySubscription.findUnique\<close> and \<^verbatim>\<open>findFirst\<close>, by subscription id.\<close>

definition db_findUnique ::
  "faults \<Rightarrow> subscription_table \<Rightarrow> string \<Rightarrow> db_error + RazorpaySubscription option"
where
  "db_findUnique flt tbl sid =
     (if read_fails flt then Inl StoreUnavailable else Inr (lookup_row sid tbl))"

text \<open>The timestamp an update sets, if it sets one: is it an invalid date, is it refused.\<close>

definition data_date_invalid :: "update_data \<Rightarrow> bool" where
  "data_date_invalid d =
     (case set_currentPeriodEnd d of None \<Rightarrow> False | Some ms \<Rightarrow> \<not> valid_Date ms)"

definition data_date_refused :: "faults \<Rightarrow> update_data \<Rightarrow> bool" where
  "data_date_refused flt d =
     (case set_currentPeriodEnd d of None \<Rightarrow> False | Some ms \<Rightarrow> refuses_timestamp flt ms)"



text \<open>\<^verbatim>\<open>db.razorpaySubscription.create\<close>.\<close>

definition db_create ::
  "faults \<Rightarrow> subscription_table \<Rightarrow> RazorpaySubscription \<Rightarrow> db_error + subscription_table"
where
  "db_create flt tbl row =
     (if \<not> valid_Date (currentPeriodEnd row) then Inl InvalidDate
      else if write_fails flt then Inl StoreUnavailable
      else if refuses_timestamp flt (currentPeriodEnd row) then Inl TimestampRefused
      else if list_ex (clashes row) tbl then Inl UniqueConstraint
      else Inr (tbl @ [row]))"

text \<open>\<^verbatim>\<open>db.razorpaySubscription.update\<close>, by subscription id.\<close>

definition db_update ::
  "faults \<Rightarrow> subscription_table \<Rightarrow> string \<Rightarrow> update_data \<Rightarrow> db_error + subscription_table"
where
  "db_update flt tbl sid d =
     (if data_date_invalid d then Inl InvalidDate
      else if write_fails flt then Inl StoreUnavailable
      else case lookup_row sid tbl of
        None \<Rightarrow> Inl RecordNotFound
      | Some r \<Rightarrow>
          if data_date_refused flt d then Inl TimestampRefused
          else if owned_elsewhere d sid tbl then Inl UniqueConstraint
          else Inr (patch_row sid d tbl))"

text \<open>
  \<^verbatim>\<open>db.razorpaySubscription.upsert\<close>, by subscription id. The client checks the
  arguments of both branches before it sends them.
\<close>

definition db_upsert ::
  "faults \<Rightarrow> subscription_table \<Rightarrow> string \<Rightarrow> update_data \<Rightarrow> RazorpaySubscription
     \<Rightarrow> db_error + subscription_table"
where
  "db_upsert flt tbl sid d row =
     (if \<not> valid_Date (currentPeriodEnd row) \<or> data_date_invalid d then Inl InvalidDate
      else if write_fails flt then Inl StoreUnavailable
      else case lookup_row sid tbl of
        None \<Rightarrow>
          if refuses_timestamp flt (currentPeriodEnd row) then Inl TimestampRefused
          else if list_ex (clashes row) tbl then Inl UniqueConstraint
          else Inr (tbl @ [row])
      | Some r \<Rightarrow>
          if data_date_refused flt d then Inl TimestampRefused
          else if owned_elsewhere d sid tbl then Inl UniqueConstraint
          else Inr (patch_row sid d tbl))"

definition db_message :: "db_error \<Rightarrow> string" where
  "db_message e =
     (case e of
        InvalidDate \<Rightarrow> ''Invalid value for argument currentPeriodEnd''
      | StoreUnavailable \<Rightarrow> ''Can not reach database server''
      | RecordNotFound \<Rightarrow> ''Record to update not found.''
      | TimestampRefused \<Rightarrow> ''Timestamp out of range''
      | UniqueConstraint \<Rightarrow> ''Unique constraint failed'')"

section \<open>Responses\<close>

text \<open>JavaScript truthiness of an optional string: present and not empty.\<close>

fun truthy :: "string option \<Rightarrow> bool" where
  "truthy None = False"
| "truthy (Some v) = (v \<noteq> [])"

datatype resp_body = Plain string | Json_verified | Json_message | Json_error | Stream

datatype response = Response (status_code: nat) (resp_body: resp_body)

section \<open>The payment provider's webhook\<close>

text \<open>
  \<^verbatim>\<open>notes.userId\<close> of a subscription entity comes out of \<^verbatim>\<open>JSON.parse\<close> unchecked: it
  may be missing, a string, or any other JSON value.
\<close>

datatype note_value = Missing | Str string | Non_string

text \<open>The fields of \<^verbatim>\<open>Razorpay.Subscription\<close> the handler reads; \<^verbatim>\<open>current_end\<close> in seconds.\<close>

record subscription_entity =
  sub_id :: string
  plan_id :: string
  sub_status :: string
  current_end :: int
  notes_userId :: note_value

record RazorpayWebhookPayload =
  event :: string
  subscriptionData :: "subscription_entity option"

text \<open>
  The guard \<^verbatim>\<open>!userId || typeof userId !== "string"\<close>: only a non-empty string
  passes.
\<close>

fun string_userId :: "note_value \<Rightarrow> string option" where
  "string_userId (Str u) = (if u = [] then None else Some u)"
| "string_userId Missing = None"
| "string_userId Non_string = None"

definition activation_db_error :: "db_error \<Rightarrow> string" where
  "activation_db_error e = ''Database error during subscription activation: '' @ db_message e"

definition is_terminal :: "string \<Rightarrow> bool" where
  "is_terminal eventType \<longleftrightarrow>
     eventType = ''subscription.halted'' \<or> eventType = ''subscription.cancelled'' \<or>
     eventType = ''subscription.completed'' \<or> eventType = ''subscription.expired''"

text \<open>
  The row written by the \<^verbatim>\<open>create\<close> of both the activated and the charged branch,
  and the columns their updates set. \<^verbatim>\<open>new Date(current_end * 1000)\<close> is kept as its
  time value; the store operations refuse it when it is not a valid date or not a
  timestamp the store takes.
\<close>

definition created_row :: "string \<Rightarrow> subscription_entity \<Rightarrow> RazorpaySubscription" where
  "created_row u sd =
     \<lparr>userId = Some u,
      razorpaySubscriptionId = Some (sub_id sd),
      razorpayPlanId = Some (plan_id sd),
      razorpayCustomerId = None,
      currentPeriodEnd = current_end sd * 1000,
      status = Some (sub_status sd)\<rparr>"

definition activated_data :: "string \<Rightarrow> subscription_entity \<Rightarrow> update_data" where
  "activated_data u sd =
     \<lparr>set_status = Some (sub_status sd),
      set_currentPeriodEnd = Some (current_end sd * 1000),
      set_userId = Some u\<rparr>"

definition charged_data :: "subscription_entity \<Rightarrow> update_data" where
  "charged_data sd =
     \<lparr>set_status = Some (sub_status sd),
      set_currentPeriodEnd = Some (current_end sd * 1000),
      set_userId = None\<rparr>"

definition terminal_data :: "subscription_entity \<Rightarrow> update_data" where
  "terminal_data sd =
     \<lparr>set_status = Some (sub_status sd), set_currentPeriodEnd = None, set_userId = None\<rparr>"

text \<open>
  Step 3 of \<^verbatim>\<open>POST\<close>, the body of the \<^verbatim>\<open>try\<close>: \<open>Inl\<close> is the message of the error
  thrown, \<open>Inr\<close> the table once the event has been applied.
\<close>

definition apply_event ::
  "faults \<Rightarrow> subscription_table \<Rightarrow> RazorpayWebhookPayload \<Rightarrow> string + subscription_table"
where
  "apply_event flt tbl p =
    (if event p = ''subscription.activated'' then
       (case subscriptionData p of
          None \<Rightarrow> Inl ''Missing subscription data for activation''
        | Some sd \<Rightarrow>
           (case string_userId (notes_userId sd) of
              None \<Rightarrow> Inl ''User ID not found or invalid in subscription notes''
            | Some u \<Rightarrow>
               (case db_findUnique flt tbl (sub_id sd) of
                  Inl e \<Rightarrow> Inl (activation_db_error e)
                | Inr None \<Rightarrow>
                   (case db_create flt tbl (created_row u sd) of
                      Inl e \<Rightarrow> Inl (activation_db_error e)
                    | Inr tbl' \<Rightarrow> Inr tbl')
                | Inr (Some existingSubscription) \<Rightarrow>
                   (case db_update flt tbl (sub_id sd) (activated_data u sd) of
                      Inl e \<Rightarrow> Inl (activation_db_error e)
                    | Inr tbl' \<Rightarrow> Inr tbl'))))
     else if event p = ''subscription.charged'' then
       (case subscriptionData p of
          None \<Rightarrow> Inl ''Missing subscription data for charged event''
        | Some sd \<Rightarrow>
           (case string_userId (notes_userId sd) of
              None \<Rightarrow>
                Inl ''User ID not found or invalid in subscription notes during charged event''
            | Some u \<Rightarrow>
               (case db_upsert flt tbl (sub_id sd) (charged_data sd) (created_row u sd) of
                  Inl e \<Rightarrow> Inl (db_message e)
                | Inr tbl' \<Rightarrow> Inr tbl')))
     else if is_terminal (event p) then
       (case subscriptionData p of
          None \<Rightarrow> Inl (''Missing subscription data for '' @ event p @ '' event'')
        | Some sd \<Rightarrow>
           (case db_update flt tbl (sub_id sd) (terminal_data sd) of
              Inl e \<Rightarrow> Inl (db_message e)
            | Inr tbl' \<Rightarrow> Inr tbl'))
     else Inr tbl)"

text \<open>
  Steps 3 and 4 with the \<^verbatim>\<open>catch\<close>: an applied (or unhandled) event is acknowledged
  with 200, a thrown error becomes a 500. No path writes before it throws, so
  the table of a 500 is the table the request found.
\<close>

definition handle_event ::
  "faults \<Rightarrow> subscription_table \<Rightarrow> RazorpayWebhookPayload \<Rightarrow> response \<times> subscription_table"
where
  "handle_event flt tbl p =
     (case apply_event flt tbl p of
        Inr tbl' \<Rightarrow> (Response 200 Json_message, tbl')
      | Inl msg \<Rightarrow> (Response 500 (Plain (''Webhook handler error: '' @ msg)), tbl))"

text \<open>
  The whole \<^verbatim>\<open>POST\<close> of the webhook route. \<open>hmac\<close> stands for the hex digest of
  \<^verbatim>\<open>crypto.createHmac("sha256", secret)\<close> and \<open>parse\<close> for \<^verbatim>\<open>JSON.parse\<close> (\<open>None\<close>
  when it throws); \<open>secret\<close> is \<^verbatim>\<open>env.RAZORPAY_WEBHOOK_SECRET\<close> and \<open>signature\<close> the
  header \<^verbatim>\<open>x-razorpay-signature\<close>, \<open>None\<close> when the request has none. The
  \<^verbatim>\<open>catch\<close> of step 1 is not reached: the digest of a string under a non-empty
  key does not throw.
\<close>

definition webhook_POST ::
  "(string \<Rightarrow> string \<Rightarrow> string) \<Rightarrow> (string \<Rightarrow> RazorpayWebhookPayload option) \<Rightarrow> string option
     \<Rightarrow> faults \<Rightarrow> subscription_table \<Rightarrow> string \<Rightarrow> string option
     \<Rightarrow> response \<times> subscription_table"
where
  "webhook_POST hmac parse secret flt tbl bodyText signature =
     (if \<not> truthy secret then (Response 500 (Plain ''Webhook secret not configured''), tbl)
      else if Some (hmac (the secret) bodyText) \<noteq> signature
        then (Response 403 (Plain ''Invalid signature''), tbl)
      else (case parse bodyText of
              None \<Rightarrow> (Response 400 (Plain ''Invalid payload''), tbl)
            | Some p \<Rightarrow> handle_event flt tbl p))"

section \<open>The payment verification route\<close>

text \<open>The fields \<^verbatim>\<open>verifyPaymentSchema\<close> accepts.\<close>

record verify_payment =
  razorpay_order_id :: "string option"
  razorpay_payment_id :: string
  razorpay_subscription_id :: "string option"
  razorpay_signature :: string

text \<open>
  What \<^verbatim>\<open>req.json()\<close> and \<^verbatim>\<open>verifyPaymentSchema.safeParse\<close> make of the request
  body: not JSON at all, JSON the schema rejects, or the parsed fields.
\<close>

datatype request_body = Not_json | Schema_rejected | Parsed verify_payment

text \<open>The string that is signed; a missing order id prints as \<^verbatim>\<open>undefined\<close>.\<close>

definition bodyToSign :: "verify_payment \<Rightarrow> string" where
  "bodyToSign d =
     (if truthy (razorpay_subscription_id d)
      then razorpay_payment_id d @ ''|'' @ the (razorpay_subscription_id d)
      else (case razorpay_order_id d of None \<Rightarrow> ''undefined'' | Some v \<Rightarrow> v)
             @ ''|'' @ razorpay_payment_id d)"

definition preliminary_row :: "string \<Rightarrow> string \<Rightarrow> int \<Rightarrow> RazorpaySubscription" where
  "preliminary_row uid sid now =
     \<lparr>userId = Some uid,
      razorpaySubscriptionId = Some sid,
      razorpayPlanId = None,
      razorpayCustomerId = None,
      currentPeriodEnd = now + 86400000,
      status = Some ''created''\<rparr>"

text \<open>
  The block run once the signature has matched and a subscription id was sent.
  Its \<^verbatim>\<open>catch\<close> logs a store error and goes on, so the block yields a table in
  every case.
\<close>

definition check_or_create ::
  "faults \<Rightarrow> subscription_table \<Rightarrow> string \<Rightarrow> string \<Rightarrow> int \<Rightarrow> subscription_table"
where
  "check_or_create flt tbl uid sid now =
     (case db_findUnique flt tbl sid of
        Inl e \<Rightarrow> tbl
      | Inr subscription \<Rightarrow>
          if subscription \<noteq> None \<and> userId (the subscription) = Some uid then tbl
          else if subscription \<noteq> None \<and> userId (the subscription) \<noteq> Some uid then tbl
          else
            (case db_create flt tbl (preliminary_row uid sid now) of
               Inl e \<Rightarrow> tbl
             | Inr tbl' \<Rightarrow> tbl'))"

text \<open>
  \<^verbatim>\<open>POST\<close> of the verification route. \<open>caller\<close> is the \<^verbatim>\<open>userId\<close> of \<^verbatim>\<open>auth()\<close>,
  \<open>secret\<close> is \<^verbatim>\<open>env.RAZORPAY_KEY_SECRET\<close>, \<open>now\<close> is \<^verbatim>\<open>Date.now()\<close>. The outer
  \<^verbatim>\<open>catch\<close> with its 500 is not reached: the digest does not throw and the store
  errors are caught inside.
\<close>

definition verify_payment_POST ::
  "(string \<Rightarrow> string \<Rightarrow> string) \<Rightarrow> string option \<Rightarrow> int \<Rightarrow> faults \<Rightarrow> subscription_table
     \<Rightarrow> string option \<Rightarrow> request_body \<Rightarrow> response \<times> subscription_table"
where
  "verify_payment_POST hmac secret now flt tbl caller body =
     (if \<not> truthy caller then (Response 401 (Plain ''Unauthorized''), tbl)
      else case body of
        Not_json \<Rightarrow> (Response 400 (Plain ''Invalid request body''), tbl)
      | Schema_rejected \<Rightarrow> (Response 400 (Plain ''Invalid input''), tbl)
      | Parsed d \<Rightarrow>
          if \<not> truthy secret then (Response 500 (Plain ''Server configuration error''), tbl)
          else if \<not> truthy (razorpay_subscription_id d) \<and> \<not> truthy (razorpay_order_id d)
            then (Response 400 (Plain ''Missing order_id or subscription_id for verification''), tbl)
          else if hmac (the secret) (bodyToSign d) = razorpay_signature d
            then (Response 200 Json_verified,
                  if truthy (razorpay_subscription_id d)
                  then check_or_create flt tbl (the caller) (the (razorpay_subscription_id d)) now
                  else tbl)
          else (Response 400 (Plain ''Payment verification failed''), tbl))"

section \<open>The daily quota of the chat route\<close>

text \<open>
  The table \<^verbatim>\<open>chatbotInteraction\<close>, keyed by the unique pair \<^verbatim>\<open>day_userId\<close>, with
  its \<^verbatim>\<open>count\<close>.
\<close>

type_synonym interaction_table = "string \<times> string \<rightharpoonup> int"

text \<open>
  Lines 31 to 56 of \<^verbatim>\<open>POST\<close>: the admission check. The result says whether the
  request goes on (\<open>False\<close> is the 429) and gives the table, in which today's row
  was created with count 0 if it was missing. \<open>limit\<close> is
  \<^verbatim>\<open>FREE_CREDITS_PER_DAY\<close>, \<open>isSubscribed\<close> the answer of
  \<^verbatim>\<open>getSubscriptionStatus()\<close>, \<open>today\<close> is \<^verbatim>\<open>new Date().toDateString()\<close>. The
  table is read as it stands; a store that cannot be reached is not part of
  this table's model.
\<close>

definition quota_check ::
  "int \<Rightarrow> bool \<Rightarrow> string \<Rightarrow> string \<Rightarrow> interaction_table \<Rightarrow> bool \<times> interaction_table"
where
  "quota_check limit isSubscribed uid today tbl =
     (if \<not> isSubscribed then
        (case tbl (today, uid) of
           None \<Rightarrow> (\<not> (0 \<ge> limit), tbl((today, uid) \<mapsto> 0))
         | Some count \<Rightarrow> (\<not> (count \<ge> limit), tbl))
      else (True, tbl))"

text \<open>
  \<^verbatim>\<open>onFinish\<close>: the increment after the completion. \<^verbatim>\<open>update\<close> throws when the
  row of the day is missing; the \<^verbatim>\<open>catch\<close> logs that and changes nothing.
\<close>

definition onFinish :: "bool \<Rightarrow> string \<Rightarrow> string \<Rightarrow> interaction_table \<Rightarrow> interaction_table" where
  "onFinish isSubscribed uid today tbl =
     (if \<not> isSubscribed then
        (case tbl (today, uid) of
           None \<Rightarrow> tbl
         | Some count \<Rightarrow> tbl((today, uid) \<mapsto> count + 1))
      else tbl)"

text \<open>
  What lies between the admission check and the end of the stream (reading the
  messages, the vector search, the model) is outside this development; only its
  outcome matters to the quota. It throws, and the \<^verbatim>\<open>catch\<close> answers with 429 if
  the message of the error includes \<^verbatim>\<open>Limit reached\<close> and with 500 otherwise; or
  the streaming response is returned but the stream does not run to its end; or
  the stream finishes and \<^verbatim>\<open>onFinish\<close> is called.
\<close>

datatype gated_operation = Throws bool | Unfinished | Finished

text \<open>
  \<^verbatim>\<open>POST\<close> of the chat route. \<open>caller\<close> is the \<^verbatim>\<open>userId\<close> of \<^verbatim>\<open>auth()\<close>, \<open>today\<close>
  the day read by the admission check and \<open>finishDay\<close> the day read by
  \<^verbatim>\<open>onFinish\<close>.
\<close>

definition chat_POST ::
  "int \<Rightarrow> string option \<Rightarrow> bool \<Rightarrow> string \<Rightarrow> string \<Rightarrow> gated_operation \<Rightarrow> interaction_table
     \<Rightarrow> response \<times> interaction_table"
where
  "chat_POST limit caller isSubscribed today finishDay operation tbl =
     (if \<not> truthy caller then (Response 401 Json_error, tbl)
      else
        (case quota_check limit isSubscribed (the caller) today tbl of
           (allowed, tbl') \<Rightarrow>
             if \<not> allowed then (Response 429 Json_error, tbl')
             else
               (case operation of
                  Throws limit_reached \<Rightarrow>
                    (Response (if limit_reached then 429 else 500) Json_error, tbl')
                | Unfinished \<Rightarrow> (Response 200 Stream, tbl')
                | Finished \<Rightarrow>
                    (Response 200 Stream, onFinish isSubscribed (the caller) finishDay tbl'))))"

text \<open>
  \<open>n\<close> requests of one caller, one after the other on one day, each admitted
  request running to its end before the next one arrives.
\<close>

fun sequential_requests ::
  "int \<Rightarrow> string \<Rightarrow> bool \<Rightarrow> string \<Rightarrow> nat \<Rightarrow> interaction_table \<Rightarrow> interaction_table"
where
  "sequential_requests limit uid isSubscribed today 0 tbl = tbl"
| "sequential_requests limit uid isSubscribed today (Suc n) tbl =
     sequential_requests limit uid isSubscribed today n
       (snd (chat_POST limit (Some uid) isSubscribed today today Finished tbl))"

text \<open>
  The count of a caller on a day as the admission check reads it: the count of
  the row, or the 0 a missing row is created with.
\<close>

definition count_of :: "interaction_table \<Rightarrow> string \<Rightarrow> string \<Rightarrow> int" where
  "count_of tbl day uid = (case tbl (day, uid) of None \<Rightarrow> 0 | Some c \<Rightarrow> c)"

section \<open>Sample inputs\<close>

text \<open>Concrete requests and tables, on which the theorems below are instantiated.\<close>

definition entity_1 :: subscription_entity where
  "entity_1 = \<lparr>sub_id = ''sub_1'', plan_id = ''plan_pro'', sub_status = ''active'',
               current_end = 200, notes_userId = Str ''user_1''\<rparr>"

definition charged_1 :: RazorpayWebhookPayload where
  "charged_1 = \<lparr>event = ''subscription.charged'', subscriptionData = Some entity_1\<rparr>"

definition activated_1 :: RazorpayWebhookPayload where
  "activated_1 = \<lparr>event = ''subscription.activated'', subscriptionData = Some entity_1\<rparr>"

definition activated_earlier :: RazorpayWebhookPayload where
  "activated_earlier =
     \<lparr>event = ''subscription.activated'',
      subscriptionData = Some (entity_1\<lparr>current_end := 100\<rparr>)\<rparr>"

definition cancelled_1 :: RazorpayWebhookPayload where
  "cancelled_1 =
     \<lparr>event = ''subscription.cancelled'',
      subscriptionData = Some (entity_1\<lparr>sub_status := ''cancelled''\<rparr>)\<rparr>"

definition charged_without_user :: RazorpayWebhookPayload where
  "charged_without_user =
     \<lparr>event = ''subscription.charged'',
      subscriptionData = Some (entity_1\<lparr>notes_userId := Missing\<rparr>)\<rparr>"

definition row_of :: "string \<Rightarrow> string \<Rightarrow> RazorpaySubscription" where
  "row_of uid sid =
     \<lparr>userId = Some uid, razorpaySubscriptionId = Some sid, razorpayPlanId = Some ''plan_pro'',
      razorpayCustomerId = None, currentPeriodEnd = 50000, status = Some ''created''\<rparr>"

definition write_down :: faults where
  "write_down = no_faults\<lparr>write_fails := True\<rparr>"

definition sample_hmac :: "string \<Rightarrow> string \<Rightarrow> string" where
  "sample_hmac k m = k @ ''#'' @ m"

definition sample_parse :: "string \<Rightarrow> RazorpayWebhookPayload option" where
  "sample_parse bodyText = (if bodyText = ''charged'' then Some charged_without_user else None)"

definition verify_1 :: verify_payment where
  "verify_1 = \<lparr>razorpay_order_id = None, razorpay_payment_id = ''pay_1'',
               razorpay_subscription_id = Some ''sub_1'',
               razorpay_signature = ''key#pay_1|sub_1''\<rparr>"

definition verify_without_ids :: verify_payment where
  "verify_without_ids = \<lparr>razorpay_order_id = None, razorpay_payment_id = ''pay_1'',
               razorpay_subscription_id = None,
               razorpay_signature = ''key#undefined|pay_1''\<rparr>"

definition cancelled_without_user :: RazorpayWebhookPayload where
  "cancelled_without_user =
     \<lparr>event = ''subscription.cancelled'',
      subscriptionData = Some (entity_1\<lparr>sub_status := ''cancelled'', notes_userId := Missing\<rparr>)\<rparr>"

section \<open>Facts about the store operations\<close>

lemma apply_data_id [simp]: "razorpaySubscriptionId (apply_data d r) = razorpaySubscriptionId r"
  by (simp add: apply_data_def)










lemma created_row_id [simp]: "razorpaySubscriptionId (created_row u sd) = Some (sub_id sd)"
  by (simp add: created_row_def)


lemma clashes_created_row:
  "clashes (created_row u sd) x \<longleftrightarrow>
     userId x = Some u \<or> razorpaySubscriptionId x = Some (sub_id sd)"
  by (auto simp: clashes_def created_row_def)


lemma created_row_owner_clash:
  "\<not> list_ex (clashes (created_row u sd)) tbl \<Longrightarrow> \<not> list_ex (\<lambda>x. userId x = Some u) tbl"
  by (auto simp: list_ex_iff clashes_created_row)



section \<open>Facts about the webhook branches\<close>



lemma terminal_data_date:
  "\<not> data_date_invalid (terminal_data sd)" "\<not> data_date_refused flt (terminal_data sd)"
  by (simp_all add: data_date_invalid_def data_date_refused_def terminal_data_def)

lemma created_row_date [simp]: "currentPeriodEnd (created_row u sd) = current_end sd * 1000"
  by (simp add: created_row_def)





lemmas sample_defs =
  entity_1_def charged_1_def activated_1_def activated_earlier_def cancelled_1_def
  charged_without_user_def cancelled_without_user_def row_of_def write_down_def
  sample_hmac_def sample_parse_def verify_1_def verify_without_ids_def

lemmas verify_defs =
  verify_payment_POST_def check_or_create_def bodyToSign_def preliminary_row_def
  db_findUnique_def db_create_def clashes_def no_faults_def valid_Date_def



section \<open>Facts about the quota\<close>


lemma quota_check_row:
  "snd (quota_check limit False uid today tbl) (today, uid) = Some (count_of tbl today uid)"
  by (simp add: quota_check_def count_of_def split: option.splits)

lemma quota_check_allowed:
  "fst (quota_check limit False uid today tbl) \<longleftrightarrow> count_of tbl today uid < limit"
  by (auto simp add: quota_check_def count_of_def split: option.splits)

lemma chat_POST_unfold:
  "uid \<noteq> [] \<Longrightarrow>
   chat_POST limit (Some uid) sub today finishDay operation tbl =
     (if \<not> fst (quota_check limit sub uid today tbl)
        then (Response 429 Json_error, snd (quota_check limit sub uid today tbl))
      else
        (case operation of
           Throws limit_reached \<Rightarrow>
             (Response (if limit_reached then 429 else 500) Json_error,
              snd (quota_check limit sub uid today tbl))
         | Unfinished \<Rightarrow> (Response 200 Stream, snd (quota_check limit sub uid today tbl))
         | Finished \<Rightarrow>
             (Response 200 Stream,
              onFinish sub uid finishDay (snd (quota_check limit sub uid today tbl)))))"
  by (cases "quota_check limit sub uid today tbl"; cases operation) (simp_all add: chat_POST_def)


lemma onFinish_count:
  "count_of (onFinish False uid today (snd (quota_check limit False uid today tbl))) today uid
     = count_of tbl today uid + 1"
  using quota_check_row[of limit uid today tbl] by (simp add: onFinish_def count_of_def)

lemma chat_completed:
  assumes "uid \<noteq> []" and "count_of tbl today uid < limit"
  shows "fst (chat_POST limit (Some uid) False today today Finished tbl) = Response 200 Stream
       \<and> count_of (snd (chat_POST limit (Some uid) False today today Finished tbl)) today uid
           = count_of tbl today uid + 1"
  using assms by (simp add: chat_POST_unfold quota_check_allowed onFinish_count)

lemma sequential_count:
  "uid \<noteq> [] \<Longrightarrow> count_of tbl today uid + int k \<le> limit \<Longrightarrow>
   count_of (sequential_requests limit uid False today k tbl) today uid
     = count_of tbl today uid + int k"
proof (induction k arbitrary: tbl)
  case 0
  then show ?case by simp
next
  case (Suc k)
  let ?t = "snd (chat_POST limit (Some uid) False today today Finished tbl)"
  have lt: "count_of tbl today uid < limit" using Suc.prems(2) by simp
  have c1: "count_of ?t today uid = count_of tbl today uid + 1"
    using chat_completed[OF Suc.prems(1) lt] by simp
  have "count_of (sequential_requests limit uid False today k ?t) today uid
          = count_of ?t today uid + int k"
    using Suc.IH[of ?t] Suc.prems c1 by simp
  then show ?case using c1 by simp
qed

section \<open>Order of the two activating events\<close>




section \<open>Terminal events\<close>

text \<open>
  C2. A terminal event (halted, cancelled, completed or expired) whose subscription
  id has no row is answered with a 500, whatever the table holds and whether or
  not the store is available; the table is left as it was, so it still has no row
  for that id.
\<close>

theorem terminal_event_unknown_subscription_rejected:
  assumes "is_terminal (event p)"
    and "subscriptionData p = Some sd"
    and "lookup_row (sub_id sd) tbl = None"
  shows "status_code (fst (handle_event flt tbl p)) = 500
       \<and> snd (handle_event flt tbl p) = tbl
       \<and> lookup_row (sub_id sd) (snd (handle_event flt tbl p)) = None"
proof -
  have ev: "event p \<noteq> ''subscription.activated''" "event p \<noteq> ''subscription.charged''"
    using assms(1) by (auto simp: is_terminal_def)
  have "db_update flt tbl (sub_id sd) (terminal_data sd) = Inl StoreUnavailable
      \<or> db_update flt tbl (sub_id sd) (terminal_data sd) = Inl RecordNotFound"
    using assms(3) by (simp add: db_update_def terminal_data_date)
  then obtain e where "db_update flt tbl (sub_id sd) (terminal_data sd) = Inl e" by blast
  then have "apply_event flt tbl p = Inl (db_message e)"
    using ev assms(1,2) by (simp add: apply_event_def)
  then show ?thesis using assms(3) by (simp add: handle_event_def)
qed

text \<open>The theorem for a cancelled event on a table that holds another subscription.\<close>

theorem terminal_event_unknown_subscription_witness:
  "is_terminal (event cancelled_1)
   \<and> lookup_row ''sub_1'' [row_of ''user_2'' ''sub_2''] = None
   \<and> status_code (fst (handle_event no_faults [row_of ''user_2'' ''sub_2''] cancelled_1)) = 500
   \<and> snd (handle_event no_faults [row_of ''user_2'' ''sub_2''] cancelled_1)
       = [row_of ''user_2'' ''sub_2'']"
proof -
  have a: "is_terminal (event cancelled_1)"
    "subscriptionData cancelled_1 = Some (entity_1\<lparr>sub_status := ''cancelled''\<rparr>)"
    "lookup_row (sub_id (entity_1\<lparr>sub_status := ''cancelled''\<rparr>))
       [row_of ''user_2'' ''sub_2''] = None"
    by (simp_all add: sample_defs is_terminal_def)
  show ?thesis
    using a terminal_event_unknown_subscription_rejected[OF a, of no_faults]
    by (simp add: entity_1_def)
qed

section \<open>Redelivery of an activated event\<close>




section \<open>The quota boundary\<close>

text \<open>
  C4. A non-subscribed user whose count for the day is 0 (no row yet, or a row with
  count 0), daily limit \<open>N\<close>, requests one after the other on that day, each admitted
  request running to its end and incrementing before the next check. After \<open>k < N\<close>
  such requests the next admission check allows the request (and a request that
  finishes is answered with 200), so checks 1 to \<open>N\<close> allow; after \<open>N\<close> requests the
  check refuses and the answer is 429, whatever the operation would have done. For a
  subscribed user the check allows whatever the table holds and whatever the limit,
  it leaves the table alone, and a request that finishes is answered with 200.
\<close>

theorem quota_boundary:
  assumes "uid \<noteq> []" and "count_of tbl today uid = 0"
  shows "(k < N \<longrightarrow>
            fst (quota_check (int N) False uid today
                   (sequential_requests (int N) uid False today k tbl))
          \<and> status_code (fst (chat_POST (int N) (Some uid) False today today Finished
                   (sequential_requests (int N) uid False today k tbl))) = 200)
       \<and> \<not> fst (quota_check (int N) False uid today
                   (sequential_requests (int N) uid False today N tbl))
       \<and> status_code (fst (chat_POST (int N) (Some uid) False today today operation
                   (sequential_requests (int N) uid False today N tbl))) = 429
       \<and> quota_check limit True uid today anytbl = (True, anytbl)
       \<and> chat_POST limit (Some uid) True today finishDay Finished anytbl
           = (Response 200 Stream, anytbl)"
proof -
  have cnt: "count_of (sequential_requests (int N) uid False today j tbl) today uid = int j"
    if "j \<le> N" for j
    using sequential_count[OF assms(1), of tbl today j "int N"] assms(2) that by simp
  have below: "k < N \<longrightarrow>
            fst (quota_check (int N) False uid today
                   (sequential_requests (int N) uid False today k tbl))
          \<and> status_code (fst (chat_POST (int N) (Some uid) False today today Finished
                   (sequential_requests (int N) uid False today k tbl))) = 200"
  proof
    assume k: "k < N"
    let ?t = "sequential_requests (int N) uid False today k tbl"
    have c: "count_of ?t today uid < int N" using cnt[of k] k by simp
    show "fst (quota_check (int N) False uid today ?t)
       \<and> status_code (fst (chat_POST (int N) (Some uid) False today today Finished ?t)) = 200"
      using c chat_completed[OF assms(1) c] by (simp add: quota_check_allowed)
  qed
  let ?t = "sequential_requests (int N) uid False today N tbl"
  have cN: "count_of ?t today uid = int N" using cnt[of N] by simp
  have n: "\<not> fst (quota_check (int N) False uid today ?t)"
    using cN by (simp add: quota_check_allowed)
  have r: "status_code (fst (chat_POST (int N) (Some uid) False today today operation ?t)) = 429"
    using n assms(1) by (simp add: chat_POST_unfold)
  have s: "quota_check limit True uid today anytbl = (True, anytbl)"
    by (simp add: quota_check_def)
  then have "chat_POST limit (Some uid) True today finishDay Finished anytbl
           = (Response 200 Stream, anytbl)"
    using assms(1) by (simp add: chat_POST_unfold onFinish_def)
  with below n r s show ?thesis by blast
qed

text \<open>
  The theorem for the limit 2 on an empty table: the first and the second check
  allow, the third refuses with 429.
\<close>

theorem quota_boundary_witness:
  "fst (quota_check 2 False ''user_1'' ''Mon Nov 02 2026''
          (sequential_requests 2 ''user_1'' False ''Mon Nov 02 2026'' 0 Map.empty))
   \<and> fst (quota_check 2 False ''user_1'' ''Mon Nov 02 2026''
          (sequential_requests 2 ''user_1'' False ''Mon Nov 02 2026'' (Suc 0) Map.empty))
   \<and> \<not> fst (quota_check 2 False ''user_1'' ''Mon Nov 02 2026''
          (sequential_requests 2 ''user_1'' False ''Mon Nov 02 2026'' (Suc (Suc 0)) Map.empty))
   \<and> status_code (fst (chat_POST 2 (Some ''user_1'') False ''Mon Nov 02 2026''
          ''Mon Nov 02 2026'' Finished
          (sequential_requests 2 ''user_1'' False ''Mon Nov 02 2026'' (Suc (Suc 0)) Map.empty)))
       = 429"
proof -
  have a: "''user_1'' \<noteq> []" "count_of Map.empty ''Mon Nov 02 2026'' ''user_1'' = 0"
    by (simp_all add: count_of_def)
  show ?thesis
    using quota_boundary[OF a, of 0 "Suc (Suc 0)" Finished]
      quota_boundary[OF a, of "Suc 0" "Suc (Suc 0)" Finished]
    by simp
qed

section \<open>The increment after a completion\<close>




section \<open>The verification route\<close>

text \<open>
  C6. A request of an authenticated caller that the schema accepts, with the key
  secret configured, whose \<^verbatim>\<open>razorpay_signature\<close> differs from the digest of the
  canonical string under that secret, is answered with a 400 whose body is not the
  \<^verbatim>\<open>verified: true\<close> one, and the subscription table is left as it was, whatever
  the store would have answered.
\<close>

theorem signature_mismatch_rejected:
  assumes "truthy caller" and "truthy secret"
    and "razorpay_signature d \<noteq> hmac (the secret) (bodyToSign d)"
  shows "status_code (fst (verify_payment_POST hmac secret now flt tbl caller (Parsed d))) = 400
     \<and> resp_body (fst (verify_payment_POST hmac secret now flt tbl caller (Parsed d)))
         \<noteq> Json_verified
     \<and> snd (verify_payment_POST hmac secret now flt tbl caller (Parsed d)) = tbl"
  using assms by (auto simp: verify_payment_POST_def)

text \<open>The theorem for a request whose signature was issued under another key.\<close>

theorem signature_mismatch_witness:
  "razorpay_signature (verify_1\<lparr>razorpay_signature := ''other#pay_1|sub_1''\<rparr>)
     \<noteq> sample_hmac ''key'' (bodyToSign (verify_1\<lparr>razorpay_signature := ''other#pay_1|sub_1''\<rparr>))
   \<and> verify_payment_POST sample_hmac (Some ''key'') 0 no_faults [] (Some ''user_1'')
        (Parsed (verify_1\<lparr>razorpay_signature := ''other#pay_1|sub_1''\<rparr>))
       = (Response 400 (Plain ''Payment verification failed''), [])"
proof -
  have a: "truthy (Some ''user_1'')" "truthy (Some ''key'')"
    "razorpay_signature (verify_1\<lparr>razorpay_signature := ''other#pay_1|sub_1''\<rparr>)
     \<noteq> sample_hmac (the (Some ''key''))
         (bodyToSign (verify_1\<lparr>razorpay_signature := ''other#pay_1|sub_1''\<rparr>))"
    by (simp_all add: sample_defs bodyToSign_def)
  show ?thesis
    using a signature_mismatch_rejected[where hmac = sample_hmac and secret = "Some ''key''"
        and caller = "Some ''user_1''" and now = 0 and flt = no_faults and tbl = "[]"
        and d = "verify_1\<lparr>razorpay_signature := ''other#pay_1|sub_1''\<rparr>", OF a]
    by (simp add: sample_defs verify_defs)
qed

section \<open>Store failures\<close>

text \<open>
  C7, as amended. On the webhook route a failed store write is answered with a 500
  and leaves the table as it was: the \<^verbatim>\<open>create\<close> and the \<^verbatim>\<open>update\<close> of the
  activated branch, the \<^verbatim>\<open>upsert\<close> of the charged branch, the \<^verbatim>\<open>update\<close> of the
  terminal branch (which does not read the notes). On the verification route a
  failed \<^verbatim>\<open>create\<close> of the preliminary row is logged only: the request is still
  answered with 200 and \<^verbatim>\<open>verified: true\<close>, and the table is left as it was.
\<close>

theorem store_write_failure_responses:
  "(event p = ''subscription.activated'' \<and> subscriptionData p = Some sd
        \<and> string_userId (notes_userId sd) = Some u
        \<and> db_findUnique flt tbl (sub_id sd) = Inr None
        \<and> db_create flt tbl (created_row u sd) = Inl e
       \<longrightarrow> status_code (fst (handle_event flt tbl p)) = 500 \<and> snd (handle_event flt tbl p) = tbl)
   \<and> (event p = ''subscription.activated'' \<and> subscriptionData p = Some sd
        \<and> string_userId (notes_userId sd) = Some u
        \<and> db_findUnique flt tbl (sub_id sd) = Inr (Some r)
        \<and> db_update flt tbl (sub_id sd) (activated_data u sd) = Inl e
       \<longrightarrow> status_code (fst (handle_event flt tbl p)) = 500 \<and> snd (handle_event flt tbl p) = tbl)
   \<and> (event p = ''subscription.charged'' \<and> subscriptionData p = Some sd
        \<and> string_userId (notes_userId sd) = Some u
        \<and> db_upsert flt tbl (sub_id sd) (charged_data sd) (created_row u sd) = Inl e
       \<longrightarrow> status_code (fst (handle_event flt tbl p)) = 500 \<and> snd (handle_event flt tbl p) = tbl)
   \<and> (is_terminal (event p) \<and> subscriptionData p = Some sd
        \<and> db_update flt tbl (sub_id sd) (terminal_data sd) = Inl e
       \<longrightarrow> status_code (fst (handle_event flt tbl p)) = 500 \<and> snd (handle_event flt tbl p) = tbl)
   \<and> (truthy caller \<and> truthy secret
        \<and> razorpay_signature d = hmac (the secret) (bodyToSign d)
        \<and> razorpay_subscription_id d = Some sid \<and> sid \<noteq> []
        \<and> db_findUnique flt tbl sid = Inr None
        \<and> db_create flt tbl (preliminary_row (the caller) sid now) = Inl e
       \<longrightarrow> verify_payment_POST hmac secret now flt tbl caller (Parsed d)
             = (Response 200 Json_verified, tbl))"
proof (intro conjI impI)
  assume t: "is_terminal (event p) \<and> subscriptionData p = Some sd
        \<and> db_update flt tbl (sub_id sd) (terminal_data sd) = Inl e"
  then have "event p \<noteq> ''subscription.activated''" "event p \<noteq> ''subscription.charged''"
    by (auto simp: is_terminal_def)
  with t have "apply_event flt tbl p = Inl (db_message e)"
    by (simp add: apply_event_def)
  then show "status_code (fst (handle_event flt tbl p)) = 500" "snd (handle_event flt tbl p) = tbl"
    by (simp_all add: handle_event_def)
next
  assume v: "truthy caller \<and> truthy secret
        \<and> razorpay_signature d = hmac (the secret) (bodyToSign d)
        \<and> razorpay_subscription_id d = Some sid \<and> sid \<noteq> []
        \<and> db_findUnique flt tbl sid = Inr None
        \<and> db_create flt tbl (preliminary_row (the caller) sid now) = Inl e"
  then have "check_or_create flt tbl (the caller) sid now = tbl"
    by (simp add: check_or_create_def)
  then show "verify_payment_POST hmac secret now flt tbl caller (Parsed d)
             = (Response 200 Json_verified, tbl)"
    using v by (simp add: verify_payment_POST_def)
qed (simp_all add: handle_event_def apply_event_def)

text \<open>
  The theorem with every write failing: the activated event on the empty table
  (\<^verbatim>\<open>create\<close>) and on a table with the row (\<^verbatim>\<open>update\<close>), the charged event, a
  cancelled event without \<^verbatim>\<open>userId\<close> in its notes, and the verification request.
\<close>

theorem store_write_failure_witness:
  "status_code (fst (handle_event write_down [] activated_1)) = 500
   \<and> status_code (fst (handle_event write_down [row_of ''user_1'' ''sub_1''] activated_1)) = 500
   \<and> snd (handle_event write_down [row_of ''user_1'' ''sub_1''] activated_1)
       = [row_of ''user_1'' ''sub_1'']
   \<and> status_code (fst (handle_event write_down [] charged_1)) = 500
   \<and> status_code (fst (handle_event write_down [row_of ''user_1'' ''sub_1'']
        cancelled_without_user)) = 500
   \<and> verify_payment_POST sample_hmac (Some ''key'') 0 write_down [] (Some ''user_1'')
        (Parsed verify_1) = (Response 200 Json_verified, [])"
proof -
  have v: "truthy (Some ''user_1'')" "truthy (Some ''key'')"
    "razorpay_signature verify_1 = sample_hmac (the (Some ''key'')) (bodyToSign verify_1)"
    "razorpay_subscription_id verify_1 = Some ''sub_1''" "''sub_1'' \<noteq> []"
    by (simp_all add: sample_defs bodyToSign_def)
  have u: "string_userId (notes_userId entity_1) = Some ''user_1''"
    by (simp add: sample_defs)
  have a: "subscriptionData activated_1 = Some entity_1"
    and c: "subscriptionData charged_1 = Some entity_1"
    and t: "subscriptionData cancelled_without_user
              = Some (entity_1\<lparr>sub_status := ''cancelled'', notes_userId := Missing\<rparr>)"
    by (simp_all add: sample_defs)
  note inst = store_write_failure_responses[where hmac = sample_hmac and secret = "Some ''key''"
      and caller = "Some ''user_1''" and d = verify_1 and sid = "''sub_1''" and now = 0
      and flt = write_down and e = StoreUnavailable and r = "row_of ''user_1'' ''sub_1''"
      and u = "''user_1''"]
  note w1 = inst[where p = activated_1 and tbl = "[]" and sd = entity_1]
  note w2 = inst[where p = activated_1 and tbl = "[row_of ''user_1'' ''sub_1'']"
      and sd = entity_1]
  note w3 = inst[where p = charged_1 and tbl = "[]" and sd = entity_1]
  note w4 = inst[where p = cancelled_without_user and tbl = "[row_of ''user_1'' ''sub_1'']"
      and sd = "entity_1\<lparr>sub_status := ''cancelled'', notes_userId := Missing\<rparr>"]
  have f: "db_findUnique write_down [] ''sub_1'' = Inr None"
    "db_findUnique write_down [row_of ''user_1'' ''sub_1''] ''sub_1''
       = Inr (Some (row_of ''user_1'' ''sub_1''))"
    "db_create write_down [] (created_row ''user_1'' entity_1) = Inl StoreUnavailable"
    "db_create write_down [] (preliminary_row ''user_1'' ''sub_1'' 0) = Inl StoreUnavailable"
    "db_update write_down tbl ''sub_1'' (activated_data ''user_1'' entity_1)
       = Inl StoreUnavailable"
    "db_update write_down tbl ''sub_1''
       (terminal_data (entity_1\<lparr>sub_status := ''cancelled'', notes_userId := Missing\<rparr>))
       = Inl StoreUnavailable"
    "db_upsert write_down tbl ''sub_1'' (charged_data entity_1) (created_row ''user_1'' entity_1)
       = Inl StoreUnavailable" for tbl
    by (simp_all add: db_findUnique_def db_create_def db_update_def db_upsert_def
        write_down_def no_faults_def row_of_def entity_1_def created_row_def preliminary_row_def
        activated_data_def charged_data_def terminal_data_def data_date_invalid_def
        valid_Date_def)
  have e: "event activated_1 = ''subscription.activated''"
    "event charged_1 = ''subscription.charged''"
    "is_terminal (event cancelled_without_user)" "sub_id entity_1 = ''sub_1''"
    by (simp_all add: sample_defs is_terminal_def)
  show ?thesis
    using w1 w2 w3 w4 f e v u a c t by simp
qed

text \<open>
  C7 as stated fails on the verification route: with a valid signature and no row
  for the subscription, the \<^verbatim>\<open>create\<close> of the preliminary row fails and the request
  is answered with 200 and \<^verbatim>\<open>verified: true\<close>.
\<close>

theorem verify_create_failure_still_success:
  "db_findUnique write_down [] ''sub_1'' = Inr None
   \<and> db_create write_down [] (preliminary_row ''user_1'' ''sub_1'' 0) = Inl StoreUnavailable
   \<and> verify_payment_POST sample_hmac (Some ''key'') 0 write_down [] (Some ''user_1'')
        (Parsed verify_1)
       = (Response 200 Json_verified, [])"
  by (simp add: sample_defs verify_defs)

section \<open>A record owned by another user\<close>

text \<open>
  C8. A request of an authenticated caller with a valid signature, whose (non-empty)
  subscription id has a row that is not owned by the caller, is answered with 200
  and \<^verbatim>\<open>verified: true\<close>, and the table afterwards is the table before: the row
  is not modified and no row is added. This holds whether or not the store is
  available.
\<close>

theorem ownership_mismatch_leaves_record:
  assumes "truthy caller" and "truthy secret"
    and "razorpay_signature d = hmac (the secret) (bodyToSign d)"
    and "razorpay_subscription_id d = Some sid" and "sid \<noteq> []"
    and "lookup_row sid tbl = Some r"
    and "userId r \<noteq> caller"
  shows "verify_payment_POST hmac secret now flt tbl caller (Parsed d)
           = (Response 200 Json_verified, tbl)"
proof -
  obtain uid where c: "caller = Some uid" using assms(1) by (cases caller) auto
  have "check_or_create flt tbl uid sid now = tbl"
    using assms(6,7) c by (simp add: check_or_create_def db_findUnique_def)
  then show ?thesis using assms(1-5) c by (simp add: verify_payment_POST_def)
qed

text \<open>The theorem for the caller \<open>user_1\<close> and a row of \<open>sub_1\<close> owned by \<open>user_2\<close>.\<close>

theorem ownership_mismatch_witness:
  "lookup_row ''sub_1'' [row_of ''user_2'' ''sub_1''] = Some (row_of ''user_2'' ''sub_1'')
   \<and> userId (row_of ''user_2'' ''sub_1'') \<noteq> Some ''user_1''
   \<and> verify_payment_POST sample_hmac (Some ''key'') 0 no_faults [row_of ''user_2'' ''sub_1'']
        (Some ''user_1'') (Parsed verify_1)
       = (Response 200 Json_verified, [row_of ''user_2'' ''sub_1''])"
proof -
  have a: "truthy (Some ''user_1'')" "truthy (Some ''key'')"
    "razorpay_signature verify_1 = sample_hmac (the (Some ''key'')) (bodyToSign verify_1)"
    "razorpay_subscription_id verify_1 = Some ''sub_1''" "''sub_1'' \<noteq> []"
    "lookup_row ''sub_1'' [row_of ''user_2'' ''sub_1''] = Some (row_of ''user_2'' ''sub_1'')"
    "userId (row_of ''user_2'' ''sub_1'') \<noteq> Some ''user_1''"
    by (simp_all add: sample_defs bodyToSign_def)
  show ?thesis
    using a ownership_mismatch_leaves_record[where hmac = sample_hmac and secret = "Some ''key''"
        and caller = "Some ''user_1''" and d = verify_1 and sid = "''sub_1''" and now = 0
        and flt = no_faults and tbl = "[row_of ''user_2'' ''sub_1'']"
        and r = "row_of ''user_2'' ''sub_1''", OF a]
    by simp
qed

section \<open>A request that names neither a subscription nor an order\<close>

text \<open>
  C9, as amended. A request of an authenticated caller that the schema accepts and
  that carries neither a subscription id nor an order id (missing or empty) is
  answered, when the key secret is configured, with the 400 of the missing id, and
  when it is not, with the 500 of the configuration error. In both cases the answer
  is fixed before any digest is computed: it is the same for every digest function
  and every signature sent, and the table is left as it was.
\<close>

theorem missing_ids_rejected_before_signature:
  assumes "truthy caller"
    and "\<not> truthy (razorpay_subscription_id d)" and "\<not> truthy (razorpay_order_id d)"
  shows "verify_payment_POST hmac secret now flt tbl caller (Parsed d) =
     (if truthy secret
        then Response 400 (Plain ''Missing order_id or subscription_id for verification'')
      else Response 500 (Plain ''Server configuration error''), tbl)
    \<and> verify_payment_POST hmac' secret now flt tbl caller
          (Parsed (d\<lparr>razorpay_signature := sg\<rparr>))
        = verify_payment_POST hmac secret now flt tbl caller (Parsed d)"
  using assms by (simp add: verify_payment_POST_def)

text \<open>The theorem with the secret configured: the answer is the 400 of the missing id.\<close>

theorem missing_ids_witness:
  "\<not> truthy (razorpay_subscription_id verify_without_ids)
   \<and> \<not> truthy (razorpay_order_id verify_without_ids)
   \<and> verify_payment_POST sample_hmac (Some ''key'') 0 no_faults [] (Some ''user_1'')
        (Parsed verify_without_ids)
       = (Response 400 (Plain ''Missing order_id or subscription_id for verification''), [])"
proof -
  have a: "truthy (Some ''user_1'')"
    "\<not> truthy (razorpay_subscription_id verify_without_ids)"
    "\<not> truthy (razorpay_order_id verify_without_ids)"
    by (simp_all add: sample_defs)
  show ?thesis
    using a missing_ids_rejected_before_signature[where hmac = sample_hmac
        and secret = "Some ''key''" and caller = "Some ''user_1''" and d = verify_without_ids
        and now = 0 and flt = no_faults and tbl = "[]", OF a]
    by simp
qed

text \<open>
  C9 as stated fails when \<^verbatim>\<open>RAZORPAY_KEY_SECRET\<close> is not set: the request that the
  schema accepts and that carries neither id is answered with 500, not 400.
\<close>

theorem missing_ids_without_secret_is_500:
  "\<not> truthy (razorpay_subscription_id verify_without_ids)
   \<and> \<not> truthy (razorpay_order_id verify_without_ids)
   \<and> verify_payment_POST sample_hmac None 0 no_faults [] (Some ''user_1'')
        (Parsed verify_without_ids)
       = (Response 500 (Plain ''Server configuration error''), [])"
  by (simp add: sample_defs verify_payment_POST_def)

section \<open>Activating events without a user\<close>

text \<open>
  C10. An activated or charged event that arrives with a valid signature and whose
  subscription entity has no non-empty string \<^verbatim>\<open>userId\<close> in its notes is answered
  with 500 and the table is left as it was, whatever the table holds: also when
  the row of the subscription exists.
\<close>

theorem missing_userId_rejected_without_write:
  assumes "truthy secret"
    and "signature = Some (hmac (the secret) bodyText)"
    and "parse bodyText = Some p"
    and "event p = ''subscription.activated'' \<or> event p = ''subscription.charged''"
    and "subscriptionData p = Some sd"
    and "string_userId (notes_userId sd) = None"
  shows "status_code (fst (webhook_POST hmac parse secret flt tbl bodyText signature)) = 500
       \<and> snd (webhook_POST hmac parse secret flt tbl bodyText signature) = tbl"
proof -
  have "\<exists>msg. apply_event flt tbl p = Inl msg"
    using assms(4,5,6) by (auto simp: apply_event_def)
  then have "status_code (fst (handle_event flt tbl p)) = 500 \<and> snd (handle_event flt tbl p) = tbl"
    by (auto simp: handle_event_def)
  then show ?thesis using assms(1,2,3) by (simp add: webhook_POST_def)
qed

text \<open>
  The theorem for a charged event without \<^verbatim>\<open>userId\<close>, on a table that holds the row
  of its subscription.
\<close>

theorem missing_userId_witness:
  "lookup_row ''sub_1'' [row_of ''user_1'' ''sub_1''] = Some (row_of ''user_1'' ''sub_1'')
   \<and> status_code (fst (webhook_POST sample_hmac sample_parse (Some ''whsec'') no_faults
        [row_of ''user_1'' ''sub_1''] ''charged'' (Some ''whsec#charged''))) = 500
   \<and> snd (webhook_POST sample_hmac sample_parse (Some ''whsec'') no_faults
        [row_of ''user_1'' ''sub_1''] ''charged'' (Some ''whsec#charged''))
       = [row_of ''user_1'' ''sub_1'']"
proof -
  have a: "truthy (Some ''whsec'')"
    "Some ''whsec#charged'' = Some (sample_hmac (the (Some ''whsec'')) ''charged'')"
    "sample_parse ''charged'' = Some charged_without_user"
    "event charged_without_user = ''subscription.activated''
       \<or> event charged_without_user = ''subscription.charged''"
    "subscriptionData charged_without_user = Some (entity_1\<lparr>notes_userId := Missing\<rparr>)"
    "string_userId (notes_userId (entity_1\<lparr>notes_userId := Missing\<rparr>)) = None"
    by (simp_all add: sample_defs)
  show ?thesis
    using missing_userId_rejected_without_write[where hmac = sample_hmac
        and parse = sample_parse and secret = "Some ''whsec''" and bodyText = "''charged''"
        and signature = "Some ''whsec#charged''" and p = charged_without_user
        and sd = "entity_1\<lparr>notes_userId := Missing\<rparr>" and flt = no_faults
        and tbl = "[row_of ''user_1'' ''sub_1'']", OF a]
    by (simp add: row_of_def)
qed

end
